theory Spec2Isabelle
  imports Main
begin

section \<open>Data model (poker/models.py)\<close>

text \<open>
  The four Django models are records. A field declared with \<open>choices\<close> is a datatype
  with one constructor per choice: \<open>Betting\<close> is the stored string \<open>betting\<close>, and so on.
  \<open>IntegerField\<close>s are Python integers. Where two models use one field name, the field
  of \<open>Player\<close> and of \<open>Opponent\<close> carries the model's name as a prefix. The primary key
  and the two timestamps of \<open>Game\<close> are left out; the key is what the store below is
  indexed by.
\<close>

datatype phase = Betting | Drawing | Showdown | Finished

datatype suit = Hearts | Diamonds | Clubs | Spades

datatype rank = Two | Three | Four | Five | Six | Seven | Eight | Nine | Ten
  | Jack | Queen | King | Ace

datatype status = Active | Folded | AllIn

record Game =
  phase :: phase
  pot :: int
  current_bet :: int
  winner :: "string option"
  winning_hand :: "string option"
  can_call :: bool
  can_raise :: bool
  can_fold :: bool

record Player =
  chips :: int
  has_folded :: bool
  player_current_bet :: int

record Card =
  suit :: suit
  rank :: rank
  selected :: bool
  position :: int

record Opponent =
  name :: string
  opponent_chips :: int
  status :: status
  card_count :: int
  opponent_current_bet :: int

text \<open>
  One game with the rows that point to it: its player (one to one), the player's cards
  in the order \<open>player.cards.all().order_by('position')\<close> returns them, and its
  opponents.
\<close>

record session =
  game :: Game
  player :: Player
  cards :: "Card list"
  opponents :: "Opponent list"

section \<open>Errors and outcomes\<close>

text \<open>
  Every \<open>raise ValueError(...)\<close> of services.py is one constructor, named after its
  message; \<open>IndexError\<close> is what Python raises when \<open>deck[i]\<close> is read past the end.
\<close>

datatype error =
    CannotBetNotBetting
  | InsufficientChipsToCall
  | AmountRequired
  | AmountMustBePositive
  | InsufficientChipsToRaise
  | CannotDrawNotDrawing
  | InvalidCardIndex int
  | GameNotFound
  | IndexError

text \<open>
  An operation either returns the saved session, or raises. \<open>Failed e s\<close> holds the
  exception and the rows as the database has them when the exception leaves the
  function: every \<open>save()\<close> that ran before the \<open>raise\<close> is in \<open>s\<close>.
\<close>

datatype outcome = Ok session | Failed error session

fun persisted :: "outcome \<Rightarrow> session" where
  "persisted (Ok s) = s"
| "persisted (Failed e s) = s"

section \<open>Randomness\<close>

text \<open>
  The calls into Python's \<open>random\<close> take their draws from a record that the caller
  supplies, so a theorem for every \<open>rng\<close> is a theorem for every run.
  \<open>random.choice(xs)\<close> is \<open>xs[k]\<close> for a \<open>k\<close> below \<open>len(xs)\<close>;
  \<open>random.randint(lo, hi)\<close> is a number between both, inclusive;
  \<open>random.shuffle\<close> is the Fisher-Yates loop of the standard library: for \<open>i\<close> from
  \<open>len(x) - 1\<close> down to 1, swap \<open>x[i]\<close> with \<open>x[j]\<close> for a \<open>j\<close> of \<open>0..i\<close>.
\<close>

record rng =
  winner_draw :: nat
  hand_draw :: nat
  shuffle_draws :: "nat \<Rightarrow> nat"
  chip_draws :: "nat \<Rightarrow> nat"

definition choice :: "nat \<Rightarrow> 'a list \<Rightarrow> 'a" where
  "choice k xs = xs ! (k mod length xs)"

definition randint :: "int \<Rightarrow> int \<Rightarrow> nat \<Rightarrow> int" where
  "randint lo hi k = lo + int (k mod nat (hi - lo + 1))"

fun shuffle_loop :: "(nat \<Rightarrow> nat) \<Rightarrow> nat \<Rightarrow> 'a list \<Rightarrow> 'a list" where
  "shuffle_loop draws 0 xs = xs"
| "shuffle_loop draws (Suc i) xs =
     (let j = draws (Suc i) mod (Suc i + 1)
      in shuffle_loop draws i (xs[Suc i := xs ! j, j := xs ! Suc i]))"

definition shuffle :: "(nat \<Rightarrow> nat) \<Rightarrow> 'a list \<Rightarrow> 'a list" where
  "shuffle draws xs = shuffle_loop draws (length xs - 1) xs"

section \<open>GameService (poker/services.py)\<close>

definition SUITS :: "suit list" where
  "SUITS = [Hearts, Diamonds, Clubs, Spades]"

definition RANKS :: "rank list" where
  "RANKS = [Two, Three, Four, Five, Six, Seven, Eight, Nine, Ten, Jack, Queen, King, Ace]"

definition opponent_names :: "string list" where
  "opponent_names = [''Computer 1'', ''Computer 2'', ''Computer 3'']"

definition winning_hands :: "string list" where
  "winning_hands =
     [''Royal Flush'', ''Straight Flush'', ''Four of a Kind'',
      ''Full House'', ''Flush'', ''Straight'', ''Three of a Kind'',
      ''Two Pair'', ''Pair of Aces'', ''Pair of Kings'', ''High Card'']"

text \<open>
  \<open>[(suit, rank) for suit in SUITS for rank in RANKS if (suit, rank) not in excluded]\<close>;
  \<open>_deal_initial_cards\<close> builds it with nothing excluded.
\<close>

definition deck_without :: "(suit \<times> rank) list \<Rightarrow> (suit \<times> rank) list" where
  "deck_without excluded =
     filter (\<lambda>c. c \<notin> set excluded) (concat (map (\<lambda>s. map (\<lambda>r. (s, r)) RANKS) SUITS))"

definition deal_initial_cards :: "rng \<Rightarrow> Card list" where
  "deal_initial_cards r =
     (let deck = shuffle (shuffle_draws r) (deck_without [])
      in map (\<lambda>i. \<lparr>suit = fst (deck ! i), rank = snd (deck ! i),
                    selected = False, position = int i\<rparr>) [0..<5])"

definition create_new_game :: "rng \<Rightarrow> session" where
  "create_new_game r =
     \<lparr>game = \<lparr>phase = Betting, pot = 0, current_bet = 10, winner = None,
              winning_hand = None, can_call = True, can_raise = True, can_fold = True\<rparr>,
      player = \<lparr>chips = 1000, has_folded = False, player_current_bet = 0\<rparr>,
      cards = deal_initial_cards r,
      opponents =
        map (\<lambda>(i, n). \<lparr>name = n, opponent_chips = randint 800 1200 (chip_draws r i),
                        status = Active, card_count = 5, opponent_current_bet = 0\<rparr>)
          (enumerate 0 opponent_names)\<rparr>"

text \<open>
  \<open>process_bet_action(game, action, amount=None)\<close>. \<open>not amount\<close> is true of \<open>None\<close>
  and of 0. An action that is none of the three strings falls through the
  \<open>if/elif\<close> chain to \<open>game.save()\<close>.
\<close>

definition process_bet_action :: "rng \<Rightarrow> session \<Rightarrow> string \<Rightarrow> int option \<Rightarrow> outcome" where
  "process_bet_action r s action amount =
     (if phase (game s) \<noteq> Betting then Failed CannotBetNotBetting s
      else if action = ''fold'' then
        Ok (s\<lparr>player := (player s)\<lparr>has_folded := True\<rparr>,
              game := (game s)\<lparr>phase := Finished,
                                winner := Some (choice (winner_draw r) opponent_names),
                                winning_hand := Some ''Pair of Kings''\<rparr>\<rparr>)
      else if action = ''call'' then
        (let bet_amount = current_bet (game s)
         in if chips (player s) < bet_amount then Failed InsufficientChipsToCall s
            else Ok (s\<lparr>player := (player s)\<lparr>chips := chips (player s) - bet_amount,
                                              player_current_bet := bet_amount\<rparr>,
                       game := (game s)\<lparr>pot := pot (game s) + bet_amount,
                                         phase := Drawing\<rparr>\<rparr>))
      else if action = ''raise'' then
        (case amount of
           None \<Rightarrow> Failed AmountRequired s
         | Some a \<Rightarrow>
             if a = 0 then Failed AmountRequired s
             else if a < 0 then Failed AmountMustBePositive s
             else if chips (player s) < a then Failed InsufficientChipsToRaise s
             else Ok (s\<lparr>player := (player s)\<lparr>chips := chips (player s) - a,
                                               player_current_bet := a\<rparr>,
                        game := (game s)\<lparr>pot := pot (game s) + a,
                                          current_bet := max (current_bet (game s)) a\<rparr>\<rparr>))
      else Ok s)"

text \<open>
  \<open>_determine_winner(game)\<close>: the candidates are the string \<open>player\<close> and the names
  of the active opponents. With a player who folded and no active opponent the winner
  stays as it was.
\<close>

definition determine_winner :: "rng \<Rightarrow> session \<Rightarrow> session" where
  "determine_winner r s =
     (let active_opponents = filter (\<lambda>opponent. status opponent = Active) (opponents s);
          possible_winners = ''player'' # map name active_opponents;
          g = game s;
          g1 = (if \<not> has_folded (player s)
                then g\<lparr>winner := Some (choice (winner_draw r) possible_winners)\<rparr>
                else if active_opponents \<noteq> []
                then g\<lparr>winner := Some (name (choice (winner_draw r) active_opponents))\<rparr>
                else g)
      in s\<lparr>game := g1\<lparr>winning_hand := Some (choice (hand_draw r) winning_hands)\<rparr>\<rparr>)"

text \<open>
  The replacement loop of \<open>process_draw_action\<close>,
  \<open>for i, index in enumerate(sorted(discard_indices))\<close>: each round reads
  \<open>cards[index]\<close> and \<open>deck[i]\<close>, overwrites suit and rank of that card and saves
  it. Reading \<open>deck[i]\<close> past the end raises \<open>IndexError\<close>, and the cards saved in
  the rounds before stay saved.
\<close>

fun replace_cards ::
  "(suit \<times> rank) list \<Rightarrow> nat \<Rightarrow> int list \<Rightarrow> Card list \<Rightarrow> error \<times> Card list + Card list" where
  "replace_cards deck i [] cs = Inr cs"
| "replace_cards deck i (index # rest) cs =
     (if i < length deck
      then replace_cards deck (Suc i) rest
             (cs[nat index := (cs ! nat index)\<lparr>suit := fst (deck ! i), rank := snd (deck ! i)\<rparr>])
      else Inl (IndexError, cs))"

text \<open>
  \<open>process_draw_action(game, discard_indices)\<close>. The validation loop raises at the
  first index that is negative or not below \<open>len(cards)\<close>; it does not compare the
  indices with each other.
\<close>

definition process_draw_action :: "rng \<Rightarrow> session \<Rightarrow> int list \<Rightarrow> outcome" where
  "process_draw_action r s discard_indices =
     (if phase (game s) \<noteq> Drawing then Failed CannotDrawNotDrawing s
      else
        (case find (\<lambda>index. index < 0 \<or> index \<ge> int (length (cards s))) discard_indices of
           Some index \<Rightarrow> Failed (InvalidCardIndex index) s
         | None \<Rightarrow>
             (case (if discard_indices \<noteq> []
                    then (let current_cards = map (\<lambda>card. (suit card, rank card)) (cards s);
                              deck = shuffle (shuffle_draws r) (deck_without current_cards)
                          in replace_cards deck 0 (sort discard_indices) (cards s))
                    else Inr (cards s)) of
                Inl (e, cs) \<Rightarrow> Failed e (s\<lparr>cards := cs\<rparr>)
              | Inr cs \<Rightarrow>
                  Ok (determine_winner r
                        (s\<lparr>cards := cs, game := (game s)\<lparr>phase := Finished\<rparr>\<rparr>)))))"

text \<open>
  \<open>get_game_state(game_id)\<close> looks the game up; the table of games is a map from
  identifiers to sessions.
\<close>

type_synonym store = "string \<rightharpoonup> session"

definition get_game_state :: "store \<Rightarrow> string \<Rightarrow> error + session" where
  "get_game_state st game_id =
     (case st game_id of None \<Rightarrow> Inl GameNotFound | Some s \<Rightarrow> Inr s)"

section \<open>The draw endpoint (poker/serializers.py, poker/views.py)\<close>

text \<open>
  \<open>DrawActionSerializer\<close> on a request body whose \<open>discardIndices\<close> is a list of
  integers: every element is an \<open>IntegerField(min_value=0, max_value=4)\<close>, the list
  has \<open>max_length=5\<close> and may be empty, and \<open>validate_discardIndices\<close> refuses the
  list when \<open>len(value) != len(set(value))\<close>.
\<close>

definition DrawActionSerializer_is_valid :: "int list \<Rightarrow> bool" where
  "DrawActionSerializer_is_valid discardIndices =
     (list_all (\<lambda>i. 0 \<le> i \<and> i \<le> 4) discardIndices
      \<and> length discardIndices \<le> 5
      \<and> length discardIndices = card (set discardIndices))"

text \<open>
  \<open>GameViewSet.draw(request, pk)\<close>, as the status code of its response and the store
  afterwards. \<open>is_uuid\<close> stands for \<open>uuid.UUID(pk)\<close> not raising. A \<open>ValueError\<close> of
  the service is answered with 400, any other exception with 500; what the service
  saved before it raised stays in the store.
\<close>

definition draw ::
  "(string \<Rightarrow> bool) \<Rightarrow> rng \<Rightarrow> store \<Rightarrow> string \<Rightarrow> int list \<Rightarrow> nat \<times> store" where
  "draw is_uuid r st pk discardIndices =
     (if \<not> is_uuid pk then (400, st)
      else
        (case get_game_state st pk of
           Inl e \<Rightarrow> (404, st)
         | Inr g \<Rightarrow>
             if \<not> DrawActionSerializer_is_valid discardIndices then (400, st)
             else if phase (game g) \<noteq> Drawing then (400, st)
             else if phase (game g) = Finished then (400, st)
             else
               (case process_draw_action r g discardIndices of
                  Ok g' \<Rightarrow> (200, st(pk \<mapsto> g'))
                | Failed e g' \<Rightarrow> (if e = IndexError then 500 else 400, st(pk \<mapsto> g')))))"

section \<open>Sequences of operations\<close>

text \<open>
  The three operations a caller has on a stored game. As poker/views.py does, each one
  fetches the game with \<open>get_game_state\<close> first and stops when there is none; the
  store then holds what the operation saved. The serializers in front of the views
  are left out, so every action string, amount and index list reaches the service.
\<close>

datatype request =
    ApplyBet string string "int option"
  | ApplyDraw string "int list"
  | GetState string

fun handle :: "rng \<Rightarrow> store \<Rightarrow> request \<Rightarrow> store" where
  "handle r st (ApplyBet game_id action amount) =
     (case get_game_state st game_id of
        Inl e \<Rightarrow> st
      | Inr s \<Rightarrow> st(game_id \<mapsto> persisted (process_bet_action r s action amount)))"
| "handle r st (ApplyDraw game_id discard_indices) =
     (case get_game_state st game_id of
        Inl e \<Rightarrow> st
      | Inr s \<Rightarrow> st(game_id \<mapsto> persisted (process_draw_action r s discard_indices)))"
| "handle r st (GetState game_id) =
     (case get_game_state st game_id of Inl e \<Rightarrow> st | Inr s \<Rightarrow> st)"

text \<open>Requests one after the other, each with the random draws of its own run.\<close>

fun run :: "store \<Rightarrow> (rng \<times> request) list \<Rightarrow> store" where
  "run st [] = st"
| "run st (q # qs) = run (handle (fst q) st (snd q)) qs"

text \<open>The order of the phases, as \<open>PHASE_CHOICES\<close> lists them.\<close>

fun phase_rank :: "phase \<Rightarrow> nat" where
  "phase_rank Betting = 0"
| "phase_rank Drawing = 1"
| "phase_rank Showdown = 2"
| "phase_rank Finished = 3"

section \<open>Concrete games\<close>

text \<open>
  Draws under which \<open>random.shuffle\<close> swaps every element with itself and every
  \<open>random.choice\<close> takes the first element: the new game holds the two to the six of
  hearts, and every opponent 800 chips.
\<close>

definition example_rng :: rng where
  "example_rng =
     \<lparr>winner_draw = 0, hand_draw = 0, shuffle_draws = (\<lambda>i. i), chip_draws = (\<lambda>i. 0)\<rparr>"

definition new_game :: session where
  "new_game = create_new_game example_rng"

text \<open>The new game after a call: 990 chips, pot 10, phase \<open>drawing\<close>.\<close>

definition called_game :: session where
  "called_game = persisted (process_bet_action example_rng new_game ''call'' None)"

text \<open>The new game after a fold: phase \<open>finished\<close>.\<close>

definition folded_game :: session where
  "folded_game = persisted (process_bet_action example_rng new_game ''fold'' None)"

text \<open>The new game after a raise of 995: 5 chips left and 995 to call.\<close>

definition raised_game :: session where
  "raised_game = persisted (process_bet_action example_rng new_game ''raise'' (Some 995))"

definition example_store :: store where
  "example_store = [''game-1'' \<mapsto> new_game]"

definition example_requests :: "(rng \<times> request) list" where
  "example_requests =
     [(example_rng, ApplyBet ''game-1'' ''call'' None),
      (example_rng, GetState ''game-1''),
      (example_rng, ApplyDraw ''game-1'' [0, 2, 4])]"


section \<open>Basic facts\<close>

lemma length_shuffle_loop: "length (shuffle_loop draws i xs) = length xs"
  by (induction i arbitrary: xs) (simp_all add: Let_def)

lemma length_shuffle: "length (shuffle draws xs) = length xs"
  by (simp add: shuffle_def length_shuffle_loop)

lemma length_full_deck: "length (deck_without []) = 52"
  by (simp add: deck_without_def SUITS_def RANKS_def)

lemma length_deal_initial_cards: "length (deal_initial_cards r) = 5"
  by (simp add: deal_initial_cards_def Let_def)

lemma determine_winner_frame:
  "phase (game (determine_winner r s)) = phase (game s)"
  "opponents (determine_winner r s) = opponents s"
  "player (determine_winner r s) = player s"
  "cards (determine_winner r s) = cards s"
  by (simp_all add: determine_winner_def Let_def)

lemma process_bet_action_opponents:
  "opponents (persisted (process_bet_action r s action amount)) = opponents s"
  by (simp add: process_bet_action_def Let_def split: option.split)

lemma process_draw_action_opponents:
  "opponents (persisted (process_draw_action r s discard_indices)) = opponents s"
  by (simp add: process_draw_action_def determine_winner_frame Let_def
      split: option.split sum.split prod.split)

lemma process_bet_action_phase:
  "phase_rank (phase (game s))
     \<le> phase_rank (phase (game (persisted (process_bet_action r s action amount))))"
  by (simp add: process_bet_action_def Let_def split: option.split)

lemma process_draw_action_phase:
  "phase_rank (phase (game s))
     \<le> phase_rank (phase (game (persisted (process_draw_action r s discard_indices))))"
  by (simp add: process_draw_action_def determine_winner_frame Let_def
      split: option.split sum.split prod.split)

lemma handle_phase:
  assumes "st game_id = Some s"
  shows "\<exists>s'. handle r st q game_id = Some s'
           \<and> phase_rank (phase (game s)) \<le> phase_rank (phase (game s'))"
proof (cases q)
  case (ApplyBet g action amount)
  then show ?thesis
    using assms process_bet_action_phase [of s r action amount]
    by (auto simp: get_game_state_def split: option.split)
next
  case (ApplyDraw g discard_indices)
  then show ?thesis
    using assms process_draw_action_phase [of s r discard_indices]
    by (auto simp: get_game_state_def split: option.split)
next
  case (GetState g)
  then show ?thesis
    using assms by (simp add: get_game_state_def split: option.split)
qed

lemma run_phase:
  "st game_id = Some s \<Longrightarrow>
     \<exists>s'. run st qs game_id = Some s'
       \<and> phase_rank (phase (game s)) \<le> phase_rank (phase (game s'))"
proof (induction qs arbitrary: st s)
  case Nil
  then show ?case by simp
next
  case (Cons q qs)
  from handle_phase [of st game_id s "fst q" "snd q"] Cons.prems
  obtain s1 where h: "handle (fst q) st (snd q) game_id = Some s1"
    and le1: "phase_rank (phase (game s)) \<le> phase_rank (phase (game s1))"
    by blast
  from Cons.IH [of "handle (fst q) st (snd q)" s1] h
  obtain s2 where "run (handle (fst q) st (snd q)) qs game_id = Some s2"
    and "phase_rank (phase (game s1)) \<le> phase_rank (phase (game s2))"
    by blast
  with le1 show ?case by auto
qed

lemma run_append: "run st (qs @ qs') = run (run st qs) qs'"
  by (induction qs arbitrary: st) simp_all

lemma deal_reads_in_range: "5 \<le> length (shuffle draws (deck_without []))"
  by (simp add: length_shuffle length_full_deck)


lemma find_invalid_index:
  assumes "index \<in> set discard_indices" and "P index"
  shows "\<exists>bad. find P discard_indices = Some bad \<and> bad \<in> set discard_indices \<and> P bad"
proof (cases "find P discard_indices")
  case None
  with assms show ?thesis by (auto simp: find_None_iff)
next
  case (Some bad)
  then show ?thesis by (auto simp: find_Some_iff)
qed

text \<open>What \<open>find\<close> returns is the first element with the property.\<close>

lemma find_first:
  "find P xs = Some x \<Longrightarrow>
     \<exists>ys zs. xs = ys @ x # zs \<and> P x \<and> list_all (\<lambda>y. \<not> P y) ys"
proof (induction xs)
  case Nil
  then show ?case by simp
next
  case (Cons a xs)
  show ?case
  proof (cases "P a")
    case True
    with Cons.prems have "a = x" by simp
    with True have "a # xs = [] @ x # xs \<and> P x \<and> list_all (\<lambda>y. \<not> P y) []"
      by simp
    then show ?thesis by blast
  next
    case False
    with Cons.prems have "find P xs = Some x" by simp
    from Cons.IH [OF this] obtain ys zs where
      "xs = ys @ x # zs" and "P x" and "list_all (\<lambda>y. \<not> P y) ys"
      by blast
    with False have "a # xs = (a # ys) @ x # zs \<and> P x \<and> list_all (\<lambda>y. \<not> P y) (a # ys)"
      by simp
    then show ?thesis by blast
  qed
qed

text \<open>The serializer refuses a repeated index, and the view then answers 400.\<close>

lemma serializer_rejects_duplicates:
  "\<not> distinct discardIndices \<Longrightarrow> \<not> DrawActionSerializer_is_valid discardIndices"
  by (auto simp: DrawActionSerializer_is_valid_def card_distinct)

lemma draw_invalid_request:
  "st pk = Some s \<Longrightarrow> \<not> DrawActionSerializer_is_valid discardIndices \<Longrightarrow>
     draw is_uuid r st pk discardIndices = (400, st)"
  by (simp add: draw_def get_game_state_def)

text \<open>The replacement loop keeps the number of cards, and so does a draw.\<close>

lemma replace_cards_length_Inr:
  "replace_cards deck i idxs cs = Inr cs' \<Longrightarrow> length cs' = length cs"
  by (induction idxs arbitrary: i cs) (auto split: if_splits)

lemma replace_cards_length_Inl:
  "replace_cards deck i idxs cs = Inl (e, cs') \<Longrightarrow> length cs' = length cs"
  by (induction idxs arbitrary: i cs) (auto split: if_splits)

lemma process_draw_action_length_cards:
  "length (cards (persisted (process_draw_action r s discard_indices))) = length (cards s)"
  by (auto simp: process_draw_action_def determine_winner_frame Let_def
      split: option.split sum.split prod.split
      dest: replace_cards_length_Inr replace_cards_length_Inl)





text \<open>A finished game stays as it is under every request.\<close>

lemma process_bet_action_finished:
  "phase (game s) = Finished \<Longrightarrow>
     process_bet_action r s action amount = Failed CannotBetNotBetting s"
  by (simp add: process_bet_action_def)

lemma process_draw_action_finished:
  "phase (game s) = Finished \<Longrightarrow>
     process_draw_action r s discard_indices = Failed CannotDrawNotDrawing s"
  by (simp add: process_draw_action_def)

lemma handle_finished:
  assumes "st game_id = Some s" and "phase (game s) = Finished"
  shows "handle r st q game_id = Some s"
proof (cases q)
  case (ApplyBet g action amount)
  show ?thesis
  proof (cases "g = game_id")
    case True
    with ApplyBet assms show ?thesis
      by (simp add: get_game_state_def process_bet_action_finished)
  next
    case False
    with ApplyBet assms(1) show ?thesis
      by (cases "st g") (simp_all add: get_game_state_def)
  qed
next
  case (ApplyDraw g discard_indices)
  show ?thesis
  proof (cases "g = game_id")
    case True
    with ApplyDraw assms show ?thesis
      by (simp add: get_game_state_def process_draw_action_finished)
  next
    case False
    with ApplyDraw assms(1) show ?thesis
      by (cases "st g") (simp_all add: get_game_state_def)
  qed
next
  case (GetState g)
  with assms(1) show ?thesis
    by (cases "st g") (simp_all add: get_game_state_def)
qed

lemma run_finished:
  "st game_id = Some s \<Longrightarrow> phase (game s) = Finished \<Longrightarrow> run st qs game_id = Some s"
proof (induction qs arbitrary: st)
  case Nil
  then show ?case by simp
next
  case (Cons q qs)
  from handle_finished [of st game_id s "fst q" "snd q"] Cons.prems
  have "handle (fst q) st (snd q) game_id = Some s" by simp
  with Cons.IH [of "handle (fst q) st (snd q)"] Cons.prems(2) show ?case by simp
qed

text \<open>The concrete games, field by field.\<close>

lemma new_game_fields:
  "game new_game = \<lparr>phase = Betting, pot = 0, current_bet = 10, winner = None,
     winning_hand = None, can_call = True, can_raise = True, can_fold = True\<rparr>"
  "player new_game = \<lparr>chips = 1000, has_folded = False, player_current_bet = 0\<rparr>"
  by (simp_all add: new_game_def create_new_game_def)

lemma called_game_drawing: "phase (game called_game) = Drawing"
  by (simp add: called_game_def new_game_fields process_bet_action_def)

lemma length_cards_called_game: "length (cards called_game) = 5"
  by (simp add: called_game_def new_game_def create_new_game_def process_bet_action_def
      length_deal_initial_cards)

lemma folded_game_finished: "phase (game folded_game) = Finished"
  by (simp add: folded_game_def new_game_fields process_bet_action_def)

lemma raised_game_fields:
  "phase (game raised_game) = Betting"
  "chips (player raised_game) = 5"
  "current_bet (game raised_game) = 995"
  by (simp_all add: raised_game_def new_game_fields process_bet_action_def)


text \<open>
  With 48 indices the replacement loop runs out of deck: the 47 cards left have all
  been written to the card at index 0, the last of them saved, when \<open>deck[47]\<close>
  raises.
\<close>

lemma draw_index_error_after_saves:
  "process_draw_action example_rng called_game (replicate 48 0) =
     Failed IndexError
       (called_game\<lparr>cards := (cards called_game)
          [0 := \<lparr>suit = Spades, rank = Ace, selected = False, position = 0\<rparr>]\<rparr>)"
  by code_simp

section \<open>The claims\<close>

text \<open>
  C1, for an index out of range and for a repeated index. In the drawing phase,
  \<open>process_draw_action\<close> with a list of indices of which one is negative or not below
  the number of cards in the hand raises the \<open>ValueError\<close> that names the first such
  index of the list (every index before it is in range), and nothing is saved: game,
  player, cards and opponents are as before. A list with a repeated index is refused
  by the draw endpoint, which answers 400 with the store as it was.
\<close>

theorem draw_rejects_out_of_range_index:
  assumes "phase (game s) = Drawing"
  shows "(index \<in> set discard_indices \<and> (index < 0 \<or> int (length (cards s)) \<le> index) \<longrightarrow>
            (\<exists>valid bad rest. discard_indices = valid @ bad # rest
               \<and> list_all (\<lambda>i. 0 \<le> i \<and> i < int (length (cards s))) valid
               \<and> (bad < 0 \<or> int (length (cards s)) \<le> bad)
               \<and> process_draw_action r s discard_indices
                   = Failed (InvalidCardIndex bad) s))
         \<and> (\<not> distinct discard_indices \<and> st pk = Some s \<longrightarrow>
              draw is_uuid r st pk discard_indices = (400, st))"
proof (intro conjI impI)
  let ?P = "\<lambda>index. index < 0 \<or> int (length (cards s)) \<le> index"
  assume "index \<in> set discard_indices \<and> ?P index"
  with find_invalid_index [of index discard_indices ?P]
  obtain bad where found: "find ?P discard_indices = Some bad"
    by blast
  from find_first [OF found] obtain valid rest where
    split: "discard_indices = valid @ bad # rest" and bad: "?P bad"
    and valid: "list_all (\<lambda>y. \<not> ?P y) valid"
    by blast
  have "(\<lambda>y. \<not> ?P y) = (\<lambda>i. 0 \<le> i \<and> i < int (length (cards s)))"
    by auto
  with valid have valid': "list_all (\<lambda>i. 0 \<le> i \<and> i < int (length (cards s))) valid"
    by simp
  from found assms have "process_draw_action r s discard_indices
      = Failed (InvalidCardIndex bad) s"
    by (simp add: process_draw_action_def)
  with split bad valid' show "\<exists>valid bad rest. discard_indices = valid @ bad # rest
      \<and> list_all (\<lambda>i. 0 \<le> i \<and> i < int (length (cards s))) valid
      \<and> (bad < 0 \<or> int (length (cards s)) \<le> bad)
      \<and> process_draw_action r s discard_indices = Failed (InvalidCardIndex bad) s"
    by blast
next
  assume "\<not> distinct discard_indices \<and> st pk = Some s"
  then show "draw is_uuid r st pk discard_indices = (400, st)"
    by (simp add: draw_invalid_request serializer_rejects_duplicates)
qed

text \<open>
  On the five cards of the game that was called: the indices 0, 5, 10 raise for the 5,
  and the endpoint answers the indices 0, 1, 1, 2 with 400.
\<close>

theorem draw_rejects_out_of_range_index_witness:
  "phase (game called_game) = Drawing
   \<and> (5::int) \<in> set [0, 5, 10] \<and> ((5::int) < 0 \<or> int (length (cards called_game)) \<le> 5)
   \<and> process_draw_action example_rng called_game [0, 5, 10]
       = Failed (InvalidCardIndex 5) called_game
   \<and> \<not> distinct [0, 1, 1, 2 :: int]
   \<and> [''game-1'' \<mapsto> called_game] ''game-1'' = Some called_game
   \<and> draw (\<lambda>pk. True) example_rng [''game-1'' \<mapsto> called_game] ''game-1'' [0, 1, 1, 2]
       = (400, [''game-1'' \<mapsto> called_game])"
proof -
  note inst = draw_rejects_out_of_range_index [OF called_game_drawing]
  have a: "(5::int) \<in> set [0, 5, 10] \<and> ((5::int) < 0 \<or> int (length (cards called_game)) \<le> 5)"
    by (simp add: length_cards_called_game)
  have b: "\<not> distinct [0, 1, 1, 2 :: int]
      \<and> [''game-1'' \<mapsto> called_game] ''game-1'' = Some called_game"
    by simp
  from inst [where index = 5 and discard_indices = "[0, 5, 10]" and r = example_rng] a
  have "\<exists>valid bad rest. [0, 5, 10] = valid @ bad # rest
          \<and> list_all (\<lambda>i. 0 \<le> i \<and> i < int (length (cards called_game))) valid
          \<and> (bad < 0 \<or> int (length (cards called_game)) \<le> bad)
          \<and> process_draw_action example_rng called_game [0, 5, 10]
              = Failed (InvalidCardIndex bad) called_game"
    by blast
  then have c: "process_draw_action example_rng called_game [0, 5, 10]
      = Failed (InvalidCardIndex 5) called_game"
    by (auto simp: length_cards_called_game append_eq_Cons_conv Cons_eq_append_conv)
  from inst [where discard_indices = "[0, 1, 1, 2]" and r = example_rng
      and st = "[''game-1'' \<mapsto> called_game]" and pk = "''game-1''"
      and is_uuid = "\<lambda>pk. True"] b
  have d: "draw (\<lambda>pk. True) example_rng [''game-1'' \<mapsto> called_game] ''game-1'' [0, 1, 1, 2]
       = (400, [''game-1'' \<mapsto> called_game])"
    by blast
  from called_game_drawing a b c d show ?thesis by blast
qed

text \<open>
  C1, for a repeated index given to the service itself. In the drawing phase the
  indices 0, 1, 1, 2 do not raise. The cards at 0, 1 and 2 are replaced (the card at 1 twice, the
  second replacement staying) and the game is finished with a winner.
\<close>

theorem draw_accepts_duplicate_index:
  "phase (game called_game) = Drawing \<and> \<not> distinct [0, 1, 1, 2 :: int]
   \<and> process_draw_action example_rng called_game [0, 1, 1, 2] =
       Ok (called_game
            \<lparr>cards :=
               [\<lparr>suit = Hearts, rank = Seven, selected = False, position = 0\<rparr>,
                \<lparr>suit = Hearts, rank = Nine, selected = False, position = 1\<rparr>,
                \<lparr>suit = Hearts, rank = Ten, selected = False, position = 2\<rparr>,
                \<lparr>suit = Hearts, rank = Five, selected = False, position = 3\<rparr>,
                \<lparr>suit = Hearts, rank = Six, selected = False, position = 4\<rparr>],
             game := (game called_game)
               \<lparr>phase := Finished, winner := Some ''player'',
                 winning_hand := Some ''Royal Flush''\<rparr>\<rparr>)"
  by code_simp

text \<open>
  C2. The phase never moves backwards. Take a stored game and any sequence of bet, draw
  and read requests, to this game or to others, valid or not, under any random draws.
  At any two points \<open>i \<le> j\<close> of the sequence the game is still stored, and its phase
  after the first \<open>j\<close> requests is the phase after the first \<open>i\<close> requests or a later
  one in the order \<open>betting\<close>, \<open>drawing\<close>, \<open>showdown\<close>, \<open>finished\<close>.
\<close>

theorem phase_monotonic:
  assumes "st game_id = Some s" and "i \<le> j"
  shows "\<exists>si sj. run st (take i qs) game_id = Some si
           \<and> run st (take j qs) game_id = Some sj
           \<and> phase_rank (phase (game si)) \<le> phase_rank (phase (game sj))"
proof -
  from run_phase [of st game_id s "take i qs"] assms(1)
  obtain si where si: "run st (take i qs) game_id = Some si" by blast
  have "take j qs = take i qs @ drop i (take j qs)"
    using assms(2) by (metis append_take_drop_id min.absorb2 take_take min.commute)
  then have "run st (take j qs) = run (run st (take i qs)) (drop i (take j qs))"
    using run_append by metis
  with run_phase [of "run st (take i qs)" game_id si "drop i (take j qs)"] si show ?thesis
    by auto
qed

theorem phase_monotonic_witness:
  "example_store ''game-1'' = Some new_game \<and> (1::nat) \<le> 3
   \<and> (\<exists>si sj. run example_store (take 1 example_requests) ''game-1'' = Some si
          \<and> run example_store (take 3 example_requests) ''game-1'' = Some sj
          \<and> phase_rank (phase (game si)) \<le> phase_rank (phase (game sj)))"
  using phase_monotonic [of example_store "''game-1''" new_game 1 3 example_requests]
  by (simp add: example_store_def)

text \<open>
  C3. In the betting phase, with at least \<open>game.current_bet\<close> chips, a call succeeds:
  the pot grows by exactly \<open>game.current_bet\<close>, the player's chips shrink by exactly
  that amount, the player's own current bet is that amount, and the phase is
  \<open>drawing\<close>.
\<close>

theorem call_moves_to_drawing:
  assumes "phase (game s) = Betting" and "current_bet (game s) \<le> chips (player s)"
  shows "\<exists>s'. process_bet_action r s ''call'' amount = Ok s'
           \<and> pot (game s') = pot (game s) + current_bet (game s)
           \<and> chips (player s') = chips (player s) - current_bet (game s)
           \<and> player_current_bet (player s') = current_bet (game s)
           \<and> phase (game s') = Drawing"
  using assms by (simp add: process_bet_action_def Let_def)

theorem call_moves_to_drawing_witness:
  "phase (game new_game) = Betting \<and> current_bet (game new_game) \<le> chips (player new_game)
   \<and> (\<exists>s'. process_bet_action example_rng new_game ''call'' None = Ok s'
          \<and> pot (game s') = pot (game new_game) + current_bet (game new_game)
          \<and> chips (player s') = chips (player new_game) - current_bet (game new_game)
          \<and> player_current_bet (player s') = current_bet (game new_game)
          \<and> phase (game s') = Drawing)"
  using call_moves_to_drawing [of new_game example_rng None]
  by (simp add: new_game_fields)




text \<open>
  C5. Once the phase is \<open>finished\<close>, a bet with any action and amount and a draw with
  any indices both raise the wrong-phase \<open>ValueError\<close> and save nothing; a stored
  finished game is the same after any sequence of requests.
\<close>

theorem finished_rejects_bet_and_draw:
  assumes "phase (game s) = Finished"
  shows "process_bet_action r s action amount = Failed CannotBetNotBetting s
         \<and> process_draw_action r s discard_indices = Failed CannotDrawNotDrawing s
         \<and> (st game_id = Some s \<longrightarrow> run st qs game_id = Some s)"
  using assms run_finished [of st game_id s qs]
  by (simp add: process_bet_action_finished process_draw_action_finished)

theorem finished_rejects_bet_and_draw_witness:
  "phase (game folded_game) = Finished
   \<and> [''game-1'' \<mapsto> folded_game] ''game-1'' = Some folded_game
   \<and> process_bet_action example_rng folded_game ''call'' None
       = Failed CannotBetNotBetting folded_game
   \<and> process_draw_action example_rng folded_game [0, 1]
       = Failed CannotDrawNotDrawing folded_game
   \<and> run [''game-1'' \<mapsto> folded_game] example_requests ''game-1'' = Some folded_game"
  using finished_rejects_bet_and_draw [of folded_game example_rng "''call''" None "[0, 1]"
      "[''game-1'' \<mapsto> folded_game]" "''game-1''" example_requests]
    folded_game_finished
  by simp

text \<open>
  C6. In the betting phase, with fewer chips than \<open>game.current_bet\<close>, a call raises
  the insufficient-chips \<open>ValueError\<close> and saves nothing: pot, chips, phase and both
  current bets are as before.
\<close>

theorem call_without_chips_fails:
  assumes "phase (game s) = Betting" and "chips (player s) < current_bet (game s)"
  shows "process_bet_action r s ''call'' amount = Failed InsufficientChipsToCall s"
  using assms by (simp add: process_bet_action_def Let_def)

theorem call_without_chips_fails_witness:
  "phase (game raised_game) = Betting
   \<and> chips (player raised_game) < current_bet (game raised_game)
   \<and> process_bet_action example_rng raised_game ''call'' None
       = Failed InsufficientChipsToCall raised_game"
  using call_without_chips_fails [of raised_game example_rng None]
  by (simp add: raised_game_fields)

text \<open>
  C7. In the betting phase, a raise by a positive amount that the player's chips cover
  succeeds: the chips shrink by the amount, the player's current bet is the amount,
  the pot grows by the amount, \<open>game.current_bet\<close> is the larger of its old value and
  the amount, and the phase is still \<open>betting\<close>. A new game has \<open>current_bet\<close> 10,
  and a raise by 50 on it gives a current bet and a pot of at least 50 in phase
  \<open>betting\<close>.
\<close>

theorem raise_commits_amount:
  "(phase (game s) = Betting \<and> 0 < a \<and> a \<le> chips (player s) \<longrightarrow>
      (\<exists>s'. process_bet_action r s ''raise'' (Some a) = Ok s'
         \<and> chips (player s') = chips (player s) - a
         \<and> player_current_bet (player s') = a
         \<and> pot (game s') = pot (game s) + a
         \<and> current_bet (game s') = max (current_bet (game s)) a
         \<and> phase (game s') = Betting))
   \<and> current_bet (game (create_new_game c)) = 10
   \<and> (\<exists>s'. process_bet_action r (create_new_game c) ''raise'' (Some 50) = Ok s'
         \<and> 50 \<le> current_bet (game s') \<and> 50 \<le> pot (game s')
         \<and> phase (game s') = Betting)"
  by (simp add: process_bet_action_def create_new_game_def)

theorem raise_commits_amount_witness:
  "phase (game new_game) = Betting \<and> (0::int) < 50 \<and> 50 \<le> chips (player new_game)
   \<and> (\<exists>s'. process_bet_action example_rng new_game ''raise'' (Some 50) = Ok s'
         \<and> chips (player s') = chips (player new_game) - 50
         \<and> player_current_bet (player s') = 50
         \<and> pot (game s') = pot (game new_game) + 50
         \<and> current_bet (game s') = max (current_bet (game new_game)) 50
         \<and> phase (game s') = Betting)"
  using raise_commits_amount [of new_game 50 example_rng example_rng]
  by (simp add: new_game_fields)

text \<open>
  C8. In the betting phase, a raise with no amount, or with an amount of 0 or less,
  raises a \<open>ValueError\<close> and saves nothing: ``Amount required for raise'' for no
  amount and for 0, ``Raise amount must be positive'' for a negative amount.
\<close>

theorem raise_without_positive_amount_fails:
  assumes "phase (game s) = Betting"
    and "amount = None \<or> (\<exists>a. amount = Some a \<and> a \<le> 0)"
  shows "process_bet_action r s ''raise'' amount =
           Failed (if amount = None \<or> amount = Some 0 then AmountRequired
                   else AmountMustBePositive) s"
  using assms by (cases amount) (auto simp: process_bet_action_def)

theorem raise_without_positive_amount_fails_witness:
  "phase (game new_game) = Betting
   \<and> (Some (- 10) = None \<or> (\<exists>a::int. Some (- 10) = Some a \<and> a \<le> 0))
   \<and> process_bet_action example_rng new_game ''raise'' (Some (- 10))
       = Failed AmountMustBePositive new_game
   \<and> process_bet_action example_rng new_game ''raise'' None
       = Failed AmountRequired new_game"
  using raise_without_positive_amount_fails [of new_game "Some (- 10)" example_rng]
    raise_without_positive_amount_fails [of new_game None example_rng]
  by (simp add: new_game_fields)

text \<open>
  C9. In the betting phase, a raise by a positive amount below \<open>game.current_bet\<close>
  that the player's chips cover succeeds: the pot grows by the amount and
  \<open>game.current_bet\<close> stays as it was.
\<close>

theorem raise_below_current_bet_accepted:
  assumes "phase (game s) = Betting" and "0 < a" and "a < current_bet (game s)"
    and "a \<le> chips (player s)"
  shows "\<exists>s'. process_bet_action r s ''raise'' (Some a) = Ok s'
           \<and> pot (game s') = pot (game s) + a
           \<and> current_bet (game s') = current_bet (game s)"
  using assms by (simp add: process_bet_action_def)

theorem raise_below_current_bet_accepted_witness:
  "phase (game new_game) = Betting \<and> (0::int) < 5 \<and> 5 < current_bet (game new_game)
   \<and> 5 \<le> chips (player new_game)
   \<and> (\<exists>s'. process_bet_action example_rng new_game ''raise'' (Some 5) = Ok s'
          \<and> pot (game s') = pot (game new_game) + 5
          \<and> current_bet (game s') = current_bet (game new_game))"
  using raise_below_current_bet_accepted [of new_game 5 example_rng]
  by (simp add: new_game_fields)

text \<open>
  C10. No bet and no draw changes an opponent: whether the operation returns or
  raises, the opponents saved afterwards are the opponents before, with every field
  (name, chips, status, card count, current bet) as it was.
\<close>

theorem opponents_never_modified:
  "opponents (persisted (process_bet_action r s action amount)) = opponents s
   \<and> opponents (persisted (process_draw_action r s discard_indices)) = opponents s"
  by (simp add: process_bet_action_opponents process_draw_action_opponents)

end
